theory Spec2Isabelle
  imports Complex_Main
begin

section \<open>Bounce game: data model\<close>

text \<open>
  Shallow embedding of the simulation core of the bounce game: the pure functions of
  \<^verbatim>\<open>client/utils/gameLogic.ts\<close> and the reducer and frame update of the
  \<^verbatim>\<open>useGameState\<close> hook. A JavaScript \<^verbatim>\<open>number\<close> is modelled as a
  real number, so rounding, infinities and NaN of IEEE doubles are outside the model.
  Record fields keep the names of the TypeScript types; a field whose name occurs in
  several types, or is a constant of HOL, carries a short prefix naming its type.
\<close>

datatype GameState = MENU | AIMING | PLAYING | PAUSED | GAME_OVER | LEVEL_COMPLETE

record BallPosition =
  pos_x :: real
  pos_y :: real

record BallVelocity =
  vel_vx :: real
  vel_vy :: real

record BallPhysics =
  position :: BallPosition
  velocity :: BallVelocity
  radius :: real
  gravity :: real
  bounceCoefficient :: real
  maxVelocity :: real

record Platform =
  plat_x :: real
  plat_y :: real
  plat_width :: real
  plat_height :: real
  plat_speed :: real

record LevelConfig =
  lc_level :: real
  ballSpeed :: real
  platformWidth :: real
  platformSpeed :: real
  lc_gravity :: real
  lc_bounceCoefficient :: real
  targetBounces :: real
  timeLimit :: real

record GameConfig =
  canvasWidth :: real
  canvasHeight :: real
  ballRadius :: real
  platformHeight :: real
  platformY :: real
  cfg_maxVelocity :: real
  initialBallY :: real
  levels :: "LevelConfig list"

text \<open>\<^verbatim>\<open>hitPosition?: number\<close> is an optional field: \<open>None\<close> is the absent field.\<close>

record CollisionState =
  cs_wall :: bool
  cs_ceiling :: bool
  cs_platform :: bool
  cs_floor :: bool
  cs_hitPosition :: "real option"

record ScoreData =
  score :: real
  lives :: real
  level :: real
  highScore :: real
  bounceCount :: real
  timeElapsed :: real
  multiplier :: real
  consecutiveBounces :: real
  comboCount :: real

text \<open>The string union \<^verbatim>\<open>'platform' | 'wall' | 'ceiling' | 'floor'\<close>.\<close>

datatype Surface = platform_surface | wall_surface | ceiling_surface | floor_surface

record AimData =
  aim_angle :: real
  aim_power :: real
  startX :: real
  startY :: real
  endX :: real
  endY :: real

datatype InputType = mouse | touch | keyboard

record ControlState =
  inputType :: InputType
  isDragging :: bool
  dragStartX :: real
  dragStartY :: real
  currentX :: real
  currentY :: real
  platformTargetX :: real
  keyboardLeft :: bool
  keyboardRight :: bool

datatype PowerUpType =
  multi_ball | larger_paddle | slow_mo | shield | score_multiplier | magnetic_paddle

record PowerUp =
  pu_id :: string
  pu_type :: PowerUpType
  pu_x :: real
  pu_y :: real
  pu_duration :: real
  pu_startTime :: real
  pu_active :: bool
  pu_collected :: bool

datatype ObstacleType = static_block | moving_barrier | breakable_brick | speed_boost

record Obstacle =
  ob_id :: string
  ob_type :: ObstacleType
  ob_x :: real
  ob_y :: real
  ob_width :: real
  ob_height :: real
  ob_vx :: "real option"
  ob_vy :: "real option"
  ob_health :: "real option"
  ob_maxHealth :: "real option"
  ob_points :: "real option"

datatype DifficultyMode = easy | normal | hard

text \<open>
  \<^verbatim>\<open>Partial<T>\<close>: every field of \<^verbatim>\<open>T\<close> may be absent (\<open>None\<close>). A key that is
  present holds a value of the field's type.
\<close>

record PartialScoreData =
  p_score :: "real option"
  p_lives :: "real option"
  p_level :: "real option"
  p_highScore :: "real option"
  p_bounceCount :: "real option"
  p_timeElapsed :: "real option"
  p_multiplier :: "real option"
  p_consecutiveBounces :: "real option"
  p_comboCount :: "real option"

record PartialAimData =
  p_angle :: "real option"
  p_power :: "real option"
  p_startX :: "real option"
  p_startY :: "real option"
  p_endX :: "real option"
  p_endY :: "real option"

record PartialControlState =
  p_inputType :: "InputType option"
  p_isDragging :: "bool option"
  p_dragStartX :: "real option"
  p_dragStartY :: "real option"
  p_currentX :: "real option"
  p_currentY :: "real option"
  p_platformTargetX :: "real option"
  p_keyboardLeft :: "bool option"
  p_keyboardRight :: "bool option"

record PartialAudioSettings =
  p_enabled :: "bool option"
  p_volume :: "real option"
  p_mute :: "bool option"

section \<open>Game logic (gameLogic.ts)\<close>

definition createLevelConfigs :: "LevelConfig list" where
  "createLevelConfigs =
    [\<lparr>lc_level = 1, ballSpeed = 8, platformWidth = 100, platformSpeed = 8, lc_gravity = 98 / 10,
      lc_bounceCoefficient = 75 / 100, targetBounces = 10, timeLimit = 60\<rparr>,
     \<lparr>lc_level = 2, ballSpeed = 10, platformWidth = 90, platformSpeed = 9, lc_gravity = 10,
      lc_bounceCoefficient = 78 / 100, targetBounces = 12, timeLimit = 55\<rparr>,
     \<lparr>lc_level = 3, ballSpeed = 12, platformWidth = 80, platformSpeed = 10, lc_gravity = 102 / 10,
      lc_bounceCoefficient = 8 / 10, targetBounces = 15, timeLimit = 50\<rparr>,
     \<lparr>lc_level = 4, ballSpeed = 14, platformWidth = 70, platformSpeed = 11, lc_gravity = 105 / 10,
      lc_bounceCoefficient = 82 / 100, targetBounces = 18, timeLimit = 45\<rparr>,
     \<lparr>lc_level = 5, ballSpeed = 16, platformWidth = 60, platformSpeed = 12, lc_gravity = 108 / 10,
      lc_bounceCoefficient = 85 / 100, targetBounces = 20, timeLimit = 40\<rparr>]"

definition createDefaultGameConfig :: GameConfig where
  "createDefaultGameConfig =
    \<lparr>canvasWidth = 800, canvasHeight = 600, ballRadius = 20, platformHeight = 15, platformY = 50,
     cfg_maxVelocity = 20, initialBallY = 0, levels = createLevelConfigs\<rparr>"

definition createInitialBallPhysics :: "GameConfig \<Rightarrow> LevelConfig \<Rightarrow> BallPhysics" where
  "createInitialBallPhysics config levelConfig =
    (let initialY = canvasHeight config - platformY config - platformHeight config
                      - ballRadius config - 10
     in \<lparr>position = \<lparr>pos_x = canvasWidth config / 2, pos_y = initialY\<rparr>,
         velocity = \<lparr>vel_vx = 0, vel_vy = 0\<rparr>,
         radius = ballRadius config,
         gravity = lc_gravity levelConfig,
         bounceCoefficient = lc_bounceCoefficient levelConfig,
         maxVelocity = cfg_maxVelocity config\<rparr>)"

definition createInitialPlatform :: "GameConfig \<Rightarrow> LevelConfig \<Rightarrow> Platform" where
  "createInitialPlatform config levelConfig =
    \<lparr>plat_x = canvasWidth config / 2,
     plat_y = canvasHeight config - platformY config,
     plat_width = platformWidth levelConfig,
     plat_height = platformHeight config,
     plat_speed = platformSpeed levelConfig\<rparr>"

definition createInitialCollisionState :: CollisionState where
  "createInitialCollisionState =
    \<lparr>cs_wall = False, cs_ceiling = False, cs_platform = False, cs_floor = False,
     cs_hitPosition = Some 0\<rparr>"

definition createInitialScoreData :: ScoreData where
  "createInitialScoreData =
    \<lparr>score = 0, lives = 3, level = 1, highScore = 0, bounceCount = 0, timeElapsed = 0,
     multiplier = 1, consecutiveBounces = 0, comboCount = 0\<rparr>"

text \<open>\<^verbatim>\<open>Math.max(min, Math.min(value, max))\<close>.\<close>

definition clamp :: "real \<Rightarrow> real \<Rightarrow> real \<Rightarrow> real" where
  "clamp val lo hi = max lo (min val hi)"

text \<open>
  \<^verbatim>\<open>updateBallPhysics\<close> destructures the ball and then assigns to the fields of its
  \<^verbatim>\<open>position\<close> and \<^verbatim>\<open>velocity\<close> objects, so the argument is changed in place: after
  the call the caller's ball holds the same position and velocity as the returned one.
  The statements run in the source's order: gravity is added to \<^verbatim>\<open>vy\<close> first, the
  position moves by the new \<^verbatim>\<open>vy\<close>, and the velocity is clamped last.
\<close>

definition updateBallPhysics :: "BallPhysics \<Rightarrow> real \<Rightarrow> BallPhysics" where
  "updateBallPhysics ball deltaTime =
    (let vy1 = vel_vy (velocity ball) + gravity ball * deltaTime * (1 / 10);
         vx1 = vel_vx (velocity ball);
         x1 = pos_x (position ball) + vx1 * deltaTime;
         y1 = pos_y (position ball) + vy1 * deltaTime;
         vx2 = clamp vx1 (- maxVelocity ball) (maxVelocity ball);
         vy2 = clamp vy1 (- maxVelocity ball) (maxVelocity ball)
     in ball\<lparr>position := \<lparr>pos_x = x1, pos_y = y1\<rparr>,
             velocity := \<lparr>vel_vx = vx2, vel_vy = vy2\<rparr>\<rparr>)"

text \<open>
  \<^verbatim>\<open>Math.PI\<close>, \<^verbatim>\<open>Math.cos\<close> and \<^verbatim>\<open>Math.sin\<close> are read as the real number
  \<open>pi\<close> and the real cosine and sine. In the doubles of the source they are roundings
  (\<^verbatim>\<open>Math.cos(Math.PI / 2)\<close> is about \<open>6.1e-17\<close>, not 0), so the exact value of a launch
  velocity is beyond this model and nothing below states one; the reducer uses
  \<^verbatim>\<open>launchBall\<close> only to fill the ball of the \<^verbatim>\<open>LAUNCH_BALL\<close> case.
\<close>

definition launchBall :: "BallPhysics \<Rightarrow> real \<Rightarrow> real \<Rightarrow> GameConfig \<Rightarrow> BallPhysics" where
  "launchBall ball angle pwr config =
    (let launchSpeed = pwr * (cfg_maxVelocity config / 100);
         angleRad = (angle * pi) / 180
     in ball\<lparr>velocity := \<lparr>vel_vx = launchSpeed * cos angleRad,
                            vel_vy = - launchSpeed * sin angleRad\<rparr>\<rparr>)"

text \<open>
  The collision checks return \<^verbatim>\<open>{ hit, newVelocity }\<close> and correct the ball's position
  by assigning to \<^verbatim>\<open>ball.position\<close> in place. The model returns the source's result
  paired with the ball as the call leaves it.
\<close>

definition checkWallCollision ::
  "BallPhysics \<Rightarrow> GameConfig \<Rightarrow> (bool \<times> BallVelocity) \<times> BallPhysics" where
  "checkWallCollision ball config =
    (let newVelocity = velocity ball in
     if pos_x (position ball) - radius ball < 0 then
       ((True, newVelocity\<lparr>vel_vx := vel_vx newVelocity * (- bounceCoefficient ball)\<rparr>),
        ball\<lparr>position := (position ball)\<lparr>pos_x := radius ball\<rparr>\<rparr>)
     else if pos_x (position ball) + radius ball > canvasWidth config then
       ((True, newVelocity\<lparr>vel_vx := vel_vx newVelocity * (- bounceCoefficient ball)\<rparr>),
        ball\<lparr>position := (position ball)\<lparr>pos_x := canvasWidth config - radius ball\<rparr>\<rparr>)
     else ((False, newVelocity), ball))"

definition checkCeilingCollision :: "BallPhysics \<Rightarrow> (bool \<times> BallVelocity) \<times> BallPhysics" where
  "checkCeilingCollision ball =
    (let newVelocity = velocity ball in
     if pos_y (position ball) - radius ball < 0 then
       ((True, newVelocity\<lparr>vel_vy := vel_vy newVelocity * (- bounceCoefficient ball)\<rparr>),
        ball\<lparr>position := (position ball)\<lparr>pos_y := radius ball\<rparr>\<rparr>)
     else ((False, newVelocity), ball))"

text \<open>
  \<^verbatim>\<open>hitPoint / (platform.width / 2)\<close> divides by zero for a platform of width 0; the
  source then yields an infinity or NaN, the model HOL's \<open>x / 0 = 0\<close>. No statement
  below depends on that case.
\<close>

definition checkPlatformCollision ::
  "BallPhysics \<Rightarrow> Platform \<Rightarrow> (bool \<times> BallVelocity \<times> real) \<times> BallPhysics" where
  "checkPlatformCollision ball plat =
    (let newVelocity = velocity ball in
     if pos_x (position ball) + radius ball > plat_x plat - plat_width plat / 2 \<and>
        pos_x (position ball) - radius ball < plat_x plat + plat_width plat / 2 \<and>
        pos_y (position ball) + radius ball > plat_y plat - plat_height plat / 2 \<and>
        pos_y (position ball) - radius ball < plat_y plat + plat_height plat / 2 \<and>
        vel_vy (velocity ball) > 0
     then
       (let hitPoint = pos_x (position ball) - plat_x plat;
            hitPosition = hitPoint / (plat_width plat / 2)
        in ((True,
             \<lparr>vel_vx = vel_vx newVelocity + hitPosition * 2,
              vel_vy = vel_vy newVelocity * (- bounceCoefficient ball)\<rparr>,
             hitPosition),
            ball\<lparr>position := (position ball)
                    \<lparr>pos_y := plat_y plat - plat_height plat / 2 - radius ball\<rparr>\<rparr>))
     else ((False, newVelocity, 0), ball))"

definition checkFloorCollision :: "BallPhysics \<Rightarrow> GameConfig \<Rightarrow> bool" where
  "checkFloorCollision ball config \<longleftrightarrow> pos_y (position ball) + radius ball > canvasHeight config"

definition updatePlatformPosition :: "Platform \<Rightarrow> real \<Rightarrow> GameConfig \<Rightarrow> Platform" where
  "updatePlatformPosition plat targetX config =
    (let halfWidth = plat_width plat / 2;
         minX = halfWidth;
         maxX = canvasWidth config - halfWidth;
         newX = clamp targetX (minX + 10) (maxX - 10)
     in plat\<lparr>plat_x := newX\<rparr>)"

text \<open>\<^verbatim>\<open>Math.floor\<close> returns a number again: the floor as a real.\<close>

definition calculateBounceScore :: "Surface \<Rightarrow> real \<Rightarrow> real \<Rightarrow> real" where
  "calculateBounceScore surface hitPosition mult =
    (let baseScore = 10;
         bonus0 = 0;
         bonus = (if surface = platform_surface
                  then bonus0 + max 0 (1 - \<bar>hitPosition\<bar>) * 5
                  else bonus0)
     in real_of_int \<lfloor>(baseScore + bonus) * mult\<rfloor>)"

definition calculateComboMultiplier :: "real \<Rightarrow> real" where
  "calculateComboMultiplier cb =
    (if cb \<le> 1 then 1
     else if cb \<le> 3 then 15 / 10
     else if cb \<le> 5 then 2
     else if cb \<le> 10 then 25 / 10
     else 3)"

definition updateScoreData :: "ScoreData \<Rightarrow> real \<Rightarrow> Surface \<Rightarrow> real \<Rightarrow> ScoreData" where
  "updateScoreData currentScore bounceScore surface hitPosition =
    (let newConsecutiveBounces =
           (if surface = platform_surface then consecutiveBounces currentScore + 1 else 0);
         newMultiplier = calculateComboMultiplier newConsecutiveBounces;
         newComboCount =
           (if newConsecutiveBounces > consecutiveBounces currentScore
            then comboCount currentScore + 1 else comboCount currentScore)
     in currentScore\<lparr>score := score currentScore + bounceScore,
                     bounceCount := bounceCount currentScore + 1,
                     consecutiveBounces := newConsecutiveBounces,
                     multiplier := newMultiplier,
                     comboCount := newComboCount\<rparr>)"

definition resetCombo :: "ScoreData \<Rightarrow> ScoreData" where
  "resetCombo scoreData = scoreData\<lparr>consecutiveBounces := 0, multiplier := 1\<rparr>"

definition loseLife :: "ScoreData \<Rightarrow> ScoreData" where
  "loseLife scoreData = scoreData\<lparr>lives := max 0 (lives scoreData - 1)\<rparr>"

definition nextLevel :: "ScoreData \<Rightarrow> ScoreData" where
  "nextLevel scoreData =
    scoreData\<lparr>level := level scoreData + 1, bounceCount := 0, timeElapsed := 0,
              consecutiveBounces := 0, multiplier := 1\<rparr>"

definition updateHighScore :: "ScoreData \<Rightarrow> ScoreData" where
  "updateHighScore scoreData =
    scoreData\<lparr>highScore := max (highScore scoreData) (score scoreData)\<rparr>"

definition createInitialAimData :: "GameConfig \<Rightarrow> AimData" where
  "createInitialAimData config =
    \<lparr>aim_angle = 45, aim_power = 8,
     startX = canvasWidth config / 2,
     startY = canvasHeight config - platformY config - platformHeight config - ballRadius config,
     endX = canvasWidth config / 2,
     endY = canvasHeight config - platformY config - platformHeight config - ballRadius config\<rparr>"

definition createInitialControlState :: ControlState where
  "createInitialControlState =
    \<lparr>inputType = mouse, isDragging = False, dragStartX = 0, dragStartY = 0, currentX = 0,
     currentY = 0, platformTargetX = 0, keyboardLeft = False, keyboardRight = False\<rparr>"

section \<open>The reducer and the frame update (useGameState)\<close>

text \<open>
  \<^verbatim>\<open>GameData\<close>. The type declares thirteen more fields after \<^verbatim>\<open>controlState\<close>;
  \<^verbatim>\<open>createInitialGameData\<close> sets none of them and the reducer copies them unchanged
  with \<^verbatim>\<open>...prev\<close>. The model keeps the two that the shield power-up is about,
  \<^verbatim>\<open>activePowerUps\<close> and \<^verbatim>\<open>shieldBounces\<close>, with \<open>None\<close> for a field that was never
  set; the others are read and written by nothing modelled here.
\<close>

record GameData =
  gameState :: GameState
  scoreData :: ScoreData
  ballPhysics :: BallPhysics
  platform :: Platform
  config :: GameConfig
  collisionState :: CollisionState
  currentLevel :: LevelConfig
  levelStartTime :: real
  lastBounceTime :: real
  aimData :: AimData
  controlState :: ControlState
  activePowerUps :: "PowerUp list option"
  shieldBounces :: "real option"

text \<open>
  \<^verbatim>\<open>VisualEffect\<close> is imported by the sources but declared in none of them; it only
  occurs as the payload of an action that the reducer ignores.
\<close>

typedecl VisualEffect

text \<open>
  \<^verbatim>\<open>GameAction\<close>: one constructor for each member of the tagged union, with its
  payload. The action \<^verbatim>\<open>GAME_OVER\<close> shares its name with the game state and is
  written \<open>GAME_OVER_action\<close>.
\<close>

datatype GameAction =
    START_GAME
  | ENTER_AIMING
  | LAUNCH_BALL real real
  | PAUSE_GAME
  | RESUME_GAME
  | RESET_GAME
  | UPDATE_BALL_PHYSICS BallPhysics
  | UPDATE_PLATFORM_POSITION real
  | UPDATE_SCORE PartialScoreData
  | SET_GAME_STATE GameState
  | SET_COLLISION_STATE CollisionState
  | BALL_BOUNCE Surface "real option"
  | LOSE_LIFE
  | NEXT_LEVEL
  | GAME_OVER_action
  | UPDATE_TIME
  | RESET_COMBO
  | UPDATE_AIM_DATA PartialAimData
  | UPDATE_CONTROL_STATE PartialControlState
  | ADD_VISUAL_EFFECT VisualEffect
  | REMOVE_VISUAL_EFFECT string
  | UPDATE_BALL_TRAIL "BallPosition list"
  | SCREEN_SHAKE real real
  | SPAWN_POWERUP PowerUp
  | COLLECT_POWERUP string
  | ACTIVATE_POWERUP PowerUp
  | DEACTIVATE_POWERUP string
  | SPAWN_OBSTACLE Obstacle
  | REMOVE_OBSTACLE string
  | UPDATE_OBSTACLE Obstacle
  | UNLOCK_ACHIEVEMENT string
  | UPDATE_ACHIEVEMENT_PROGRESS string real
  | SET_DIFFICULTY_MODE DifficultyMode
  | UPDATE_AUDIO_SETTINGS PartialAudioSettings
  | PLAY_SOUND_EFFECT string
  | ADD_MULTI_BALL BallPhysics
  | REMOVE_MULTI_BALL string
  | UPDATE_SHIELD_BOUNCES real
  | SET_MAGNETIC_RANGE real

definition createInitialGameData :: GameData where
  "createInitialGameData =
    (let config = createDefaultGameConfig;
         levelConfig = hd (levels config)
     in \<lparr>gameState = MENU,
         scoreData = createInitialScoreData,
         ballPhysics = createInitialBallPhysics config levelConfig,
         platform = createInitialPlatform config levelConfig,
         config = config,
         collisionState = createInitialCollisionState,
         currentLevel = levelConfig,
         levelStartTime = 0,
         lastBounceTime = 0,
         aimData = createInitialAimData config,
         controlState = createInitialControlState,
         activePowerUps = None,
         shieldBounces = None\<rparr>)"

text \<open>Object spread \<^verbatim>\<open>{ ...target, ...payload }\<close>: the keys of the payload win.\<close>

definition orElse :: "'a option \<Rightarrow> 'a \<Rightarrow> 'a" where
  "orElse opt d = (case opt of None \<Rightarrow> d | Some v \<Rightarrow> v)"

definition mergeScoreData :: "ScoreData \<Rightarrow> PartialScoreData \<Rightarrow> ScoreData" where
  "mergeScoreData s p =
    \<lparr>score = orElse (p_score p) (score s),
     lives = orElse (p_lives p) (lives s),
     level = orElse (p_level p) (level s),
     highScore = orElse (p_highScore p) (highScore s),
     bounceCount = orElse (p_bounceCount p) (bounceCount s),
     timeElapsed = orElse (p_timeElapsed p) (timeElapsed s),
     multiplier = orElse (p_multiplier p) (multiplier s),
     consecutiveBounces = orElse (p_consecutiveBounces p) (consecutiveBounces s),
     comboCount = orElse (p_comboCount p) (comboCount s)\<rparr>"

definition mergeAimData :: "AimData \<Rightarrow> PartialAimData \<Rightarrow> AimData" where
  "mergeAimData a p =
    \<lparr>aim_angle = orElse (p_angle p) (aim_angle a),
     aim_power = orElse (p_power p) (aim_power a),
     startX = orElse (p_startX p) (startX a),
     startY = orElse (p_startY p) (startY a),
     endX = orElse (p_endX p) (endX a),
     endY = orElse (p_endY p) (endY a)\<rparr>"

definition mergeControlState :: "ControlState \<Rightarrow> PartialControlState \<Rightarrow> ControlState" where
  "mergeControlState c p =
    \<lparr>inputType = orElse (p_inputType p) (inputType c),
     isDragging = orElse (p_isDragging p) (isDragging c),
     dragStartX = orElse (p_dragStartX p) (dragStartX c),
     dragStartY = orElse (p_dragStartY p) (dragStartY c),
     currentX = orElse (p_currentX p) (currentX c),
     currentY = orElse (p_currentY p) (currentY c),
     platformTargetX = orElse (p_platformTargetX p) (platformTargetX c),
     keyboardLeft = orElse (p_keyboardLeft p) (keyboardLeft c),
     keyboardRight = orElse (p_keyboardRight p) (keyboardRight c)\<rparr>"

text \<open>
  The reducer: the function that \<^verbatim>\<open>dispatch\<close> hands to \<^verbatim>\<open>setGameData\<close>. The first
  argument is the value that \<^verbatim>\<open>Date.now()\<close> returns during the call;
  \<^verbatim>\<open>levelStartTimeRef\<close> is written and read back within one case and so is not
  part of the state. \<^verbatim>\<open>hitPosition || 0\<close> is 0 for an absent hit position.
  An action without a case of its own reaches \<^verbatim>\<open>default: return prev\<close>.
\<close>

fun dispatch :: "real \<Rightarrow> GameAction \<Rightarrow> GameData \<Rightarrow> GameData" where
  "dispatch now START_GAME prev =
    (let config = createDefaultGameConfig;
         levelConfig = hd (levels config)
     in prev\<lparr>gameState := AIMING,
             scoreData := createInitialScoreData,
             ballPhysics := createInitialBallPhysics config levelConfig,
             platform := createInitialPlatform config levelConfig,
             config := config,
             collisionState := createInitialCollisionState,
             currentLevel := levelConfig,
             levelStartTime := now,
             lastBounceTime := 0,
             aimData := createInitialAimData config,
             controlState := createInitialControlState\<rparr>)"
| "dispatch now ENTER_AIMING prev = prev\<lparr>gameState := AIMING\<rparr>"
| "dispatch now (LAUNCH_BALL angle pwr) prev =
    prev\<lparr>gameState := PLAYING,
         ballPhysics := launchBall (ballPhysics prev) angle pwr (config prev),
         levelStartTime := now\<rparr>"
| "dispatch now PAUSE_GAME prev = prev\<lparr>gameState := PAUSED\<rparr>"
| "dispatch now RESUME_GAME prev = prev\<lparr>gameState := PLAYING\<rparr>"
| "dispatch now RESET_GAME prev =
    (let resetConfig = createDefaultGameConfig;
         resetLevelConfig = hd (levels resetConfig)
     in prev\<lparr>gameState := MENU,
             scoreData := createInitialScoreData,
             ballPhysics := createInitialBallPhysics resetConfig resetLevelConfig,
             platform := createInitialPlatform resetConfig resetLevelConfig,
             config := resetConfig,
             collisionState := createInitialCollisionState,
             currentLevel := resetLevelConfig,
             levelStartTime := 0,
             lastBounceTime := 0,
             aimData := createInitialAimData resetConfig,
             controlState := createInitialControlState\<rparr>)"
| "dispatch now (UPDATE_BALL_PHYSICS ball) prev = prev\<lparr>ballPhysics := ball\<rparr>"
| "dispatch now (UPDATE_PLATFORM_POSITION targetX) prev =
    prev\<lparr>platform := updatePlatformPosition (platform prev) targetX (config prev)\<rparr>"
| "dispatch now (UPDATE_SCORE payload) prev =
    prev\<lparr>scoreData := mergeScoreData (scoreData prev) payload\<rparr>"
| "dispatch now (SET_GAME_STATE st) prev = prev\<lparr>gameState := st\<rparr>"
| "dispatch now (SET_COLLISION_STATE cs) prev = prev\<lparr>collisionState := cs\<rparr>"
| "dispatch now (BALL_BOUNCE surface hitPosition) prev =
    (let bounceScore = calculateBounceScore surface (orElse hitPosition 0)
                         (multiplier (scoreData prev));
         newScoreData = updateScoreData (scoreData prev) bounceScore surface
                          (orElse hitPosition 0)
     in prev\<lparr>scoreData := newScoreData, lastBounceTime := now\<rparr>)"
| "dispatch now LOSE_LIFE prev =
    (let updatedScoreData = loseLife (scoreData prev);
         newGameState = (if lives updatedScoreData \<le> 0 then GAME_OVER else AIMING)
     in prev\<lparr>scoreData := updatedScoreData,
             gameState := newGameState,
             ballPhysics := createInitialBallPhysics (config prev) (currentLevel prev)\<rparr>)"
| "dispatch now NEXT_LEVEL prev =
    (case find (\<lambda>l. lc_level l = level (scoreData prev) + 1) (levels (config prev)) of
       None \<Rightarrow> prev\<lparr>gameState := GAME_OVER, scoreData := updateHighScore (scoreData prev)\<rparr>
     | Some nextLevelConfig \<Rightarrow>
         prev\<lparr>gameState := AIMING,
              scoreData := nextLevel (scoreData prev),
              ballPhysics := createInitialBallPhysics (config prev) nextLevelConfig,
              platform := createInitialPlatform (config prev) nextLevelConfig,
              currentLevel := nextLevelConfig,
              levelStartTime := now,
              lastBounceTime := 0,
              aimData := createInitialAimData (config prev)\<rparr>)"
| "dispatch now GAME_OVER_action prev =
    prev\<lparr>gameState := GAME_OVER, scoreData := updateHighScore (scoreData prev)\<rparr>"
| "dispatch now UPDATE_TIME prev =
    (let timeElapsed' = (now - levelStartTime prev) / 1000
     in prev\<lparr>scoreData := (scoreData prev)\<lparr>timeElapsed := timeElapsed'\<rparr>\<rparr>)"
| "dispatch now RESET_COMBO prev = prev\<lparr>scoreData := resetCombo (scoreData prev)\<rparr>"
| "dispatch now (UPDATE_AIM_DATA payload) prev =
    prev\<lparr>aimData := mergeAimData (aimData prev) payload\<rparr>"
| "dispatch now (UPDATE_CONTROL_STATE payload) prev =
    prev\<lparr>controlState := mergeControlState (controlState prev) payload\<rparr>"
| "dispatch now _ prev = prev"

text \<open>
  The function that \<^verbatim>\<open>gameLoop\<close> hands to \<^verbatim>\<open>setGameData\<close>, for a frame of length
  \<open>deltaTime\<close>. It returns the next state together with the actions it dispatches, in
  the order of the calls: \<^verbatim>\<open>dispatch\<close> inside the callback only enqueues another
  update, which runs after the callback has returned.

  The ball is shared: \<^verbatim>\<open>updateBallPhysics\<close> and the collision checks assign to the
  position and velocity objects of \<^verbatim>\<open>prev.ballPhysics\<close>, while each check builds its
  \<^verbatim>\<open>newVelocity\<close> as a copy. Where the callback returns \<^verbatim>\<open>prev\<close> after the physics
  has run, \<^verbatim>\<open>prev\<close> therefore holds the corrected position and the integrated, clamped
  velocity without the reflections (\<open>prevAfter\<close>). \<^verbatim>\<open>newCollisionState\<close> is a copy, and
  is dropped on those paths.
\<close>

definition gameLoopUpdate :: "real \<Rightarrow> real \<Rightarrow> GameData \<Rightarrow> GameData \<times> GameAction list" where
  "gameLoopUpdate now deltaTime prev =
    (if gameState prev \<noteq> PLAYING then (prev, [])
     else
       let timeElapsed' = (now - levelStartTime prev) / 1000 in
       if timeElapsed' \<ge> timeLimit (currentLevel prev) then (prev, [LOSE_LIFE])
       else
         let integrated = updateBallPhysics (ballPhysics prev) deltaTime;
             platformCollision = checkPlatformCollision integrated (platform prev);
             pHit = fst (fst platformCollision);
             pVelocity = fst (snd (fst platformCollision));
             pHitPosition = snd (snd (fst platformCollision));
             ball1 = (if pHit then (snd platformCollision)\<lparr>velocity := pVelocity\<rparr>
                      else snd platformCollision);
             cs1 = (if pHit
                    then (collisionState prev)\<lparr>cs_platform := True,
                                                cs_hitPosition := Some pHitPosition\<rparr>
                    else (collisionState prev)\<lparr>cs_platform := False\<rparr>);
             acts1 = (if pHit then [BALL_BOUNCE platform_surface (Some pHitPosition)] else []);
             wallCollision = checkWallCollision ball1 (config prev);
             wHit = fst (fst wallCollision);
             ball2 = (if wHit then (snd wallCollision)\<lparr>velocity := snd (fst wallCollision)\<rparr>
                      else snd wallCollision);
             cs2 = cs1\<lparr>cs_wall := wHit\<rparr>;
             acts2 = acts1 @ (if wHit then [BALL_BOUNCE wall_surface None, RESET_COMBO] else []);
             ceilingCollision = checkCeilingCollision ball2;
             cHit = fst (fst ceilingCollision);
             ball3 = (if cHit
                      then (snd ceilingCollision)\<lparr>velocity := snd (fst ceilingCollision)\<rparr>
                      else snd ceilingCollision);
             cs3 = cs2\<lparr>cs_ceiling := cHit\<rparr>;
             acts3 = acts2 @ (if cHit then [BALL_BOUNCE ceiling_surface None, RESET_COMBO]
                              else []);
             prevAfter = prev\<lparr>ballPhysics := integrated\<lparr>position := position ball3\<rparr>\<rparr>
         in if checkFloorCollision ball3 (config prev) then (prevAfter, acts3 @ [LOSE_LIFE])
            else if bounceCount (scoreData prev) \<ge> targetBounces (currentLevel prev)
            then (prevAfter, acts3 @ [NEXT_LEVEL])
            else (prev\<lparr>ballPhysics := ball3,
                       collisionState := cs3\<lparr>cs_floor := False\<rparr>,
                       scoreData := (scoreData prev)\<lparr>timeElapsed := timeElapsed'\<rparr>\<rparr>,
                  acts3))"

text \<open>
  One frame: the update above, then the actions it dispatched, applied by the reducer in
  order. The same clock value is used for the whole frame.
\<close>

definition runFrame :: "real \<Rightarrow> real \<Rightarrow> GameData \<Rightarrow> GameData" where
  "runFrame now deltaTime prev =
    (let r = gameLoopUpdate now deltaTime prev
     in foldl (\<lambda>g a. dispatch now a g) (fst r) (snd r))"

text \<open>
  \<^verbatim>\<open>gameLoop(currentTime)\<close>, on the pair of \<^verbatim>\<open>lastTimeRef.current\<close> and the game data:
  it does nothing outside \<^verbatim>\<open>PLAYING\<close>, and skips a frame shorter than a tenth of
  the reference frame of 16.67 ms after recording its time.
\<close>

definition gameLoop :: "real \<Rightarrow> real \<Rightarrow> real \<times> GameData \<Rightarrow> real \<times> GameData" where
  "gameLoop currentTime now st =
    (let lastTime = fst st; gameData = snd st in
     if gameState gameData \<noteq> PLAYING then st
     else
       let deltaTime = (currentTime - lastTime) / (1667 / 100) in
       if deltaTime < 1 / 10 then (currentTime, gameData)
       else (currentTime, runFrame now deltaTime gameData))"

section \<open>Histories, the combo invariant and scenario states\<close>

text \<open>
  The stored multiplier agrees with the step function of the stored streak.
\<close>

definition comboConsistent :: "ScoreData \<Rightarrow> bool" where
  "comboConsistent s \<longleftrightarrow> multiplier s = calculateComboMultiplier (consecutiveBounces s)"

text \<open>
  An \<^verbatim>\<open>UPDATE_SCORE\<close> payload may carry any subset of the fields of the score data.
  \<open>keepsComboFields\<close> holds of every action except an \<^verbatim>\<open>UPDATE_SCORE\<close> whose payload
  carries \<^verbatim>\<open>multiplier\<close> or \<^verbatim>\<open>consecutiveBounces\<close>.
\<close>

fun keepsComboFields :: "GameAction \<Rightarrow> bool" where
  "keepsComboFields (UPDATE_SCORE payload) =
     (p_multiplier payload = None \<and> p_consecutiveBounces payload = None)"
| "keepsComboFields _ = True"

text \<open>
  A history of the hook: each entry is the clock value and either an action given to
  \<^verbatim>\<open>dispatch\<close> or a frame of the game loop with its length.
\<close>

datatype Event = Dispatched GameAction | Frame real

fun applyEvent :: "GameData \<Rightarrow> real \<times> Event \<Rightarrow> GameData" where
  "applyEvent g (now, Dispatched a) = dispatch now a g"
| "applyEvent g (now, Frame deltaTime) = runFrame now deltaTime g"

fun allowedEvent :: "real \<times> Event \<Rightarrow> bool" where
  "allowedEvent (now, Dispatched a) = keepsComboFields a"
| "allowedEvent (now, Frame deltaTime) = True"

text \<open>
  The multipliers stored after each bounce of a sequence of surfaces, every bounce
  scored and recorded as the \<^verbatim>\<open>BALL_BOUNCE\<close> case of the reducer does.
\<close>

fun multiplierTrace :: "ScoreData \<Rightarrow> Surface list \<Rightarrow> real list" where
  "multiplierTrace s [] = []"
| "multiplierTrace s (surface # rest) =
    (let s' = updateScoreData s (calculateBounceScore surface 0 (multiplier s)) surface 0
     in multiplier s' # multiplierTrace s' rest)"

text \<open>
  A state in \<^verbatim>\<open>PLAYING\<close> on level 1 whose ball, at rest at (400, 590) with radius 20,
  already reaches below the floor of the 800 by 600 canvas, with the given lives, score,
  high score and shield bounces.
\<close>

definition floorCrossingState :: "real \<Rightarrow> real \<Rightarrow> real \<Rightarrow> real option \<Rightarrow> GameData" where
  "floorCrossingState lv sc hs sh =
    createInitialGameData
      \<lparr>gameState := PLAYING,
       scoreData := createInitialScoreData\<lparr>lives := lv, score := sc, highScore := hs\<rparr>,
       ballPhysics :=
         (ballPhysics createInitialGameData)\<lparr>position := \<lparr>pos_x = 400, pos_y = 590\<rparr>\<rparr>,
       shieldBounces := sh\<rparr>"

text \<open>The ball of that state after one frame of length 1.\<close>

definition sunkBall :: BallPhysics where
  "sunkBall =
    \<lparr>position = \<lparr>pos_x = 400, pos_y = 59098 / 100\<rparr>,
     velocity = \<lparr>vel_vx = 0, vel_vy = 98 / 100\<rparr>,
     radius = 20, gravity = 98 / 10, bounceCoefficient = 75 / 100, maxVelocity = 20\<rparr>"

text \<open>The actions of kind \<^verbatim>\<open>BALL_BOUNCE\<close>.\<close>

fun isBallBounce :: "GameAction \<Rightarrow> bool" where
  "isBallBounce (BALL_BOUNCE surface hitPosition) = True"
| "isBallBounce _ = False"

text \<open>
  A state in \<^verbatim>\<open>PLAYING\<close> on level 1 (target: 10 bounces) with nine bounces counted,
  whose ball at (25, 300) moves left at 10 per frame, towards the left wall.
\<close>

definition wallApproachState :: GameData where
  "wallApproachState =
    createInitialGameData
      \<lparr>gameState := PLAYING,
       scoreData := createInitialScoreData\<lparr>bounceCount := 9\<rparr>,
       ballPhysics :=
         (ballPhysics createInitialGameData)
           \<lparr>position := \<lparr>pos_x = 25, pos_y = 300\<rparr>,
            velocity := \<lparr>vel_vx = - 10, vel_vy = 0\<rparr>\<rparr>\<rparr>"

text \<open>
  The ball of that state after the integration of one frame of length 1 (beyond the
  wall), after the wall check of that frame, and after the integration of a second frame.
\<close>

definition overshotBall :: BallPhysics where
  "overshotBall =
    \<lparr>position = \<lparr>pos_x = 15, pos_y = 30098 / 100\<rparr>,
     velocity = \<lparr>vel_vx = - 10, vel_vy = 98 / 100\<rparr>,
     radius = 20, gravity = 98 / 10, bounceCoefficient = 75 / 100, maxVelocity = 20\<rparr>"

definition reboundBall :: BallPhysics where
  "reboundBall =
    \<lparr>position = \<lparr>pos_x = 20, pos_y = 30098 / 100\<rparr>,
     velocity = \<lparr>vel_vx = 75 / 10, vel_vy = 98 / 100\<rparr>,
     radius = 20, gravity = 98 / 10, bounceCoefficient = 75 / 100, maxVelocity = 20\<rparr>"

definition glideBall :: BallPhysics where
  "glideBall =
    \<lparr>position = \<lparr>pos_x = 275 / 10, pos_y = 30294 / 100\<rparr>,
     velocity = \<lparr>vel_vx = 75 / 10, vel_vy = 196 / 100\<rparr>,
     radius = 20, gravity = 98 / 10, bounceCoefficient = 75 / 100, maxVelocity = 20\<rparr>"

text \<open>Balls of level 1 with a velocity inside and outside the limit of 20.\<close>

definition slowBall :: BallPhysics where
  "slowBall =
    (createInitialBallPhysics createDefaultGameConfig (hd createLevelConfigs))
      \<lparr>velocity := \<lparr>vel_vx = 3, vel_vy = - 4\<rparr>\<rparr>"

definition fastBall :: BallPhysics where
  "fastBall =
    (createInitialBallPhysics createDefaultGameConfig (hd createLevelConfigs))
      \<lparr>velocity := \<lparr>vel_vx = 30, vel_vy = 0\<rparr>\<rparr>"

text \<open>An \<^verbatim>\<open>UPDATE_SCORE\<close> payload that carries the multiplier alone.\<close>

definition multiplierPayload :: PartialScoreData where
  "multiplierPayload =
    \<lparr>p_score = None, p_lives = None, p_level = None, p_highScore = None,
     p_bounceCount = None, p_timeElapsed = None, p_multiplier = Some 3,
     p_consecutiveBounces = None, p_comboCount = None\<rparr>"

section \<open>Evaluating the scenario states\<close>

lemmas init_defs =
  createInitialGameData_def createDefaultGameConfig_def createLevelConfigs_def
  createInitialScoreData_def createInitialBallPhysics_def createInitialPlatform_def
  createInitialCollisionState_def createInitialAimData_def createInitialControlState_def
  Let_def

lemma floorCrossing_fields:
  "gameState (floorCrossingState lv sc hs sh) = PLAYING"
  "levelStartTime (floorCrossingState lv sc hs sh) = 0"
  "timeLimit (currentLevel (floorCrossingState lv sc hs sh)) = 60"
  "config (floorCrossingState lv sc hs sh) = createDefaultGameConfig"
  "shieldBounces (floorCrossingState lv sc hs sh) = sh"
  "scoreData (floorCrossingState lv sc hs sh) =
     createInitialScoreData\<lparr>lives := lv, score := sc, highScore := hs\<rparr>"
  by (simp_all add: floorCrossingState_def init_defs)

lemma floorCrossing_integrate:
  "updateBallPhysics (ballPhysics (floorCrossingState lv sc hs sh)) 1 = sunkBall"
  by (simp add: floorCrossingState_def init_defs updateBallPhysics_def clamp_def sunkBall_def)

lemma floorCrossing_platform:
  "checkPlatformCollision sunkBall (platform (floorCrossingState lv sc hs sh)) =
     ((False, velocity sunkBall, 0), sunkBall)"
  by (simp add: floorCrossingState_def init_defs checkPlatformCollision_def sunkBall_def)

lemma sunkBall_wall:
  "checkWallCollision sunkBall createDefaultGameConfig = ((False, velocity sunkBall), sunkBall)"
  by (simp add: createDefaultGameConfig_def checkWallCollision_def sunkBall_def)

lemma sunkBall_ceiling:
  "checkCeilingCollision sunkBall = ((False, velocity sunkBall), sunkBall)"
  by (simp add: checkCeilingCollision_def sunkBall_def)

lemma sunkBall_floor: "checkFloorCollision sunkBall createDefaultGameConfig"
  by (simp add: createDefaultGameConfig_def checkFloorCollision_def sunkBall_def)

lemma floorCrossing_update:
  "gameLoopUpdate 1000 1 (floorCrossingState lv sc hs sh) =
     ((floorCrossingState lv sc hs sh)\<lparr>ballPhysics := sunkBall\<rparr>, [LOSE_LIFE])"
  by (simp add: gameLoopUpdate_def Let_def floorCrossing_fields floorCrossing_integrate
      floorCrossing_platform sunkBall_wall sunkBall_ceiling sunkBall_floor)

lemma floorCrossing_frame:
  "runFrame 1000 1 (floorCrossingState lv sc hs sh) =
     dispatch 1000 LOSE_LIFE ((floorCrossingState lv sc hs sh)\<lparr>ballPhysics := sunkBall\<rparr>)"
  by (simp add: runFrame_def floorCrossing_update)

lemma floorCrossing_gameLoop:
  "gameLoop (101667 / 100) 1000 (1000, floorCrossingState lv sc hs sh) =
     (101667 / 100,
      dispatch 1000 LOSE_LIFE ((floorCrossingState lv sc hs sh)\<lparr>ballPhysics := sunkBall\<rparr>))"
  by (simp add: gameLoop_def Let_def floorCrossing_fields floorCrossing_frame)

lemma wallApproach_fields:
  "gameState wallApproachState = PLAYING"
  "levelStartTime wallApproachState = 0"
  "timeLimit (currentLevel wallApproachState) = 60"
  "targetBounces (currentLevel wallApproachState) = 10"
  "config wallApproachState = createDefaultGameConfig"
  "bounceCount (scoreData wallApproachState) = 9"
  "level (scoreData wallApproachState) = 1"
  by (simp_all add: wallApproachState_def init_defs)

lemma wallApproach_integrate:
  "updateBallPhysics (ballPhysics wallApproachState) 1 = overshotBall"
  by (simp add: wallApproachState_def init_defs updateBallPhysics_def clamp_def overshotBall_def)

lemma wallApproach_platform:
  "checkPlatformCollision overshotBall (platform wallApproachState) =
     ((False, velocity overshotBall, 0), overshotBall)"
  by (simp add: wallApproachState_def init_defs checkPlatformCollision_def overshotBall_def)

lemma overshotBall_wall:
  "checkWallCollision overshotBall createDefaultGameConfig =
     ((True, velocity reboundBall), reboundBall\<lparr>velocity := velocity overshotBall\<rparr>)"
  by (simp add: createDefaultGameConfig_def checkWallCollision_def overshotBall_def
      reboundBall_def)

lemma overshotBall_ceiling:
  "checkCeilingCollision overshotBall = ((False, velocity overshotBall), overshotBall)"
  by (simp add: checkCeilingCollision_def overshotBall_def)

lemma reboundBall_ceiling:
  "checkCeilingCollision reboundBall = ((False, velocity reboundBall), reboundBall)"
  by (simp add: checkCeilingCollision_def reboundBall_def)

lemma reboundBall_floor: "\<not> checkFloorCollision reboundBall createDefaultGameConfig"
  by (simp add: createDefaultGameConfig_def checkFloorCollision_def reboundBall_def)

lemma wallApproach_update:
  "gameLoopUpdate 1000 1 wallApproachState =
     (wallApproachState
        \<lparr>ballPhysics := reboundBall,
         collisionState := (collisionState wallApproachState)
           \<lparr>cs_platform := False, cs_wall := True, cs_ceiling := False, cs_floor := False\<rparr>,
         scoreData := (scoreData wallApproachState)\<lparr>timeElapsed := 1\<rparr>\<rparr>,
      [BALL_BOUNCE wall_surface None, RESET_COMBO])"
  by (simp add: gameLoopUpdate_def Let_def wallApproach_fields wallApproach_integrate
      wallApproach_platform overshotBall_wall reboundBall_ceiling reboundBall_floor)

lemma wallApproach_after_fields:
  "gameState (runFrame 1000 1 wallApproachState) = PLAYING"
  "levelStartTime (runFrame 1000 1 wallApproachState) = 0"
  "timeLimit (currentLevel (runFrame 1000 1 wallApproachState)) = 60"
  "targetBounces (currentLevel (runFrame 1000 1 wallApproachState)) = 10"
  "config (runFrame 1000 1 wallApproachState) = createDefaultGameConfig"
  "platform (runFrame 1000 1 wallApproachState) = platform wallApproachState"
  "ballPhysics (runFrame 1000 1 wallApproachState) = reboundBall"
  "bounceCount (scoreData (runFrame 1000 1 wallApproachState)) = 10"
  "level (scoreData (runFrame 1000 1 wallApproachState)) = 1"
  by (simp_all add: runFrame_def wallApproach_update wallApproach_fields updateScoreData_def
      resetCombo_def Let_def)

lemma reboundBall_integrate: "updateBallPhysics reboundBall 1 = glideBall"
  by (simp add: updateBallPhysics_def clamp_def reboundBall_def glideBall_def)

lemma glideBall_platform:
  "checkPlatformCollision glideBall (platform wallApproachState) =
     ((False, velocity glideBall, 0), glideBall)"
  by (simp add: wallApproachState_def init_defs checkPlatformCollision_def glideBall_def)

lemma glideBall_wall:
  "checkWallCollision glideBall createDefaultGameConfig = ((False, velocity glideBall), glideBall)"
  by (simp add: createDefaultGameConfig_def checkWallCollision_def glideBall_def)

lemma glideBall_ceiling:
  "checkCeilingCollision glideBall = ((False, velocity glideBall), glideBall)"
  by (simp add: checkCeilingCollision_def glideBall_def)

lemma glideBall_floor: "\<not> checkFloorCollision glideBall createDefaultGameConfig"
  by (simp add: createDefaultGameConfig_def checkFloorCollision_def glideBall_def)

section \<open>Bounces dispatched by a frame\<close>

lemma wall_hit_iff:
  "fst (fst (checkWallCollision b c)) \<longleftrightarrow>
     pos_x (position b) - radius b < 0 \<or> pos_x (position b) + radius b > canvasWidth c"
  by (simp add: checkWallCollision_def Let_def)

lemma ceiling_hit_iff:
  "fst (fst (checkCeilingCollision b)) \<longleftrightarrow> pos_y (position b) - radius b < 0"
  by (simp add: checkCeilingCollision_def Let_def)

lemma checkPlatformCollision_keeps:
  "pos_x (position (snd (checkPlatformCollision b p))) = pos_x (position b)"
  "radius (snd (checkPlatformCollision b p)) = radius b"
  by (simp_all add: checkPlatformCollision_def Let_def)

lemma checkWallCollision_keeps:
  "pos_y (position (snd (checkWallCollision b c))) = pos_y (position b)"
  "radius (snd (checkWallCollision b c)) = radius b"
  by (simp_all add: checkWallCollision_def Let_def)

lemma frame_wall_bounce:
  "gameState g = PLAYING \<Longrightarrow> (now - levelStartTime g) / 1000 < timeLimit (currentLevel g) \<Longrightarrow>
   BALL_BOUNCE wall_surface None \<in> set (snd (gameLoopUpdate now dt g)) \<longleftrightarrow>
   fst (fst (checkWallCollision (updateBallPhysics (ballPhysics g) dt) (config g)))"
  by (simp add: gameLoopUpdate_def Let_def wall_hit_iff checkPlatformCollision_keeps)

lemma frame_ceiling_bounce:
  "gameState g = PLAYING \<Longrightarrow> (now - levelStartTime g) / 1000 < timeLimit (currentLevel g) \<Longrightarrow>
   BALL_BOUNCE ceiling_surface None \<in> set (snd (gameLoopUpdate now dt g)) \<longleftrightarrow>
   fst (fst (checkCeilingCollision
     (snd (checkPlatformCollision (updateBallPhysics (ballPhysics g) dt) (platform g)))))"
  by (simp add: gameLoopUpdate_def Let_def ceiling_hit_iff checkPlatformCollision_keeps
      checkWallCollision_keeps)

lemma gameLoopUpdate_bounceCount:
  "bounceCount (scoreData (fst (gameLoopUpdate now dt g))) = bounceCount (scoreData g)"
  by (simp add: gameLoopUpdate_def Let_def)

lemma frame_bounces_length:
  "gameState g = PLAYING \<Longrightarrow> (now - levelStartTime g) / 1000 < timeLimit (currentLevel g) \<Longrightarrow>
   length (filter isBallBounce (snd (gameLoopUpdate now dt g))) =
     (if fst (fst (checkPlatformCollision (updateBallPhysics (ballPhysics g) dt) (platform g)))
        then 1 else 0)
     + (if fst (fst (checkWallCollision (updateBallPhysics (ballPhysics g) dt) (config g)))
        then 1 else 0)
     + (if fst (fst (checkCeilingCollision
          (snd (checkPlatformCollision (updateBallPhysics (ballPhysics g) dt) (platform g)))))
        then 1 else 0)"
  by (simp add: gameLoopUpdate_def Let_def wall_hit_iff ceiling_hit_iff
      checkPlatformCollision_keeps checkWallCollision_keeps)

lemma frame_actions_kinds:
  "list_all (\<lambda>a. isBallBounce a \<or> a = RESET_COMBO \<or> a = LOSE_LIFE \<or> a = NEXT_LEVEL)
     (snd (gameLoopUpdate now dt g))"
  by (simp add: gameLoopUpdate_def Let_def)

lemma dispatch_bounceCount:
  "isBallBounce a \<or> a = RESET_COMBO \<or> a = LOSE_LIFE \<Longrightarrow>
   bounceCount (scoreData (dispatch now a g)) =
     bounceCount (scoreData g) + (if isBallBounce a then 1 else 0)"
  by (cases a) (simp_all add: updateScoreData_def resetCombo_def loseLife_def Let_def)

lemma foldl_dispatch_bounceCount:
  "list_all (\<lambda>a. isBallBounce a \<or> a = RESET_COMBO \<or> a = LOSE_LIFE) acts \<Longrightarrow>
   bounceCount (scoreData (foldl (\<lambda>g a. dispatch now a g) g acts)) =
     bounceCount (scoreData g) + real (length (filter isBallBounce acts))"
proof (induction acts arbitrary: g)
  case Nil
  then show ?case by simp
next
  case (Cons a acts)
  from Cons.prems have a: "isBallBounce a \<or> a = RESET_COMBO \<or> a = LOSE_LIFE"
    and rest: "list_all (\<lambda>a. isBallBounce a \<or> a = RESET_COMBO \<or> a = LOSE_LIFE) acts"
    by simp_all
  show ?case
    using Cons.IH [OF rest, of "dispatch now a g"] dispatch_bounceCount [OF a, of now g]
    by simp
qed

lemma frame_bounceCount:
  assumes playing: "gameState g = PLAYING"
    and timely: "(now - levelStartTime g) / 1000 < timeLimit (currentLevel g)"
    and stays: "NEXT_LEVEL \<notin> set (snd (gameLoopUpdate now dt g))"
  shows "bounceCount (scoreData (runFrame now dt g)) =
     bounceCount (scoreData g)
     + (if fst (fst (checkPlatformCollision (updateBallPhysics (ballPhysics g) dt) (platform g)))
        then 1 else 0)
     + (if fst (fst (checkWallCollision (updateBallPhysics (ballPhysics g) dt) (config g)))
        then 1 else 0)
     + (if fst (fst (checkCeilingCollision
          (snd (checkPlatformCollision (updateBallPhysics (ballPhysics g) dt) (platform g)))))
        then 1 else 0)"
proof -
  have "list_all (\<lambda>a. isBallBounce a \<or> a = RESET_COMBO \<or> a = LOSE_LIFE)
      (snd (gameLoopUpdate now dt g))"
    using frame_actions_kinds [of now dt g] stays by (auto simp add: list_all_iff)
  then have "bounceCount (scoreData (runFrame now dt g)) =
      bounceCount (scoreData g)
      + real (length (filter isBallBounce (snd (gameLoopUpdate now dt g))))"
    by (simp add: runFrame_def Let_def foldl_dispatch_bounceCount gameLoopUpdate_bounceCount)
  then show ?thesis
    by (simp add: frame_bounces_length [OF playing timely])
qed

lemma wallApproach_second_actions:
  "snd (gameLoopUpdate 1017 1 (runFrame 1000 1 wallApproachState)) = [NEXT_LEVEL]"
  by (simp add: gameLoopUpdate_def Let_def wallApproach_after_fields reboundBall_integrate
      glideBall_platform glideBall_wall glideBall_ceiling glideBall_floor)

section \<open>The combo invariant along a history\<close>

lemma dispatch_comboConsistent:
  "comboConsistent (scoreData g) \<Longrightarrow> keepsComboFields a \<Longrightarrow>
   comboConsistent (scoreData (dispatch now a g))"
  by (cases a)
     (simp_all add: comboConsistent_def createInitialScoreData_def calculateComboMultiplier_def
        mergeScoreData_def orElse_def updateScoreData_def loseLife_def nextLevel_def
        updateHighScore_def resetCombo_def Let_def split: option.split)

lemma gameLoopUpdate_scoreData:
  "multiplier (scoreData (fst (gameLoopUpdate now dt g))) = multiplier (scoreData g)"
  "consecutiveBounces (scoreData (fst (gameLoopUpdate now dt g))) =
     consecutiveBounces (scoreData g)"
  by (simp_all add: gameLoopUpdate_def Let_def)

lemma gameLoopUpdate_actions:
  "list_all keepsComboFields (snd (gameLoopUpdate now dt g))"
  by (simp add: gameLoopUpdate_def Let_def)

lemma foldl_dispatch_comboConsistent:
  "comboConsistent (scoreData g) \<Longrightarrow> list_all keepsComboFields acts \<Longrightarrow>
   comboConsistent (scoreData (foldl (\<lambda>g a. dispatch now a g) g acts))"
  by (induction acts arbitrary: g) (simp_all add: dispatch_comboConsistent)

lemma runFrame_comboConsistent:
  "comboConsistent (scoreData g) \<Longrightarrow> comboConsistent (scoreData (runFrame now dt g))"
  unfolding runFrame_def Let_def
  by (rule foldl_dispatch_comboConsistent)
     (simp_all add: comboConsistent_def gameLoopUpdate_scoreData gameLoopUpdate_actions)

lemma foldl_applyEvent_comboConsistent:
  "comboConsistent (scoreData g) \<Longrightarrow> list_all allowedEvent evs \<Longrightarrow>
   comboConsistent (scoreData (foldl applyEvent g evs))"
proof (induction evs arbitrary: g)
  case Nil
  then show ?case by simp
next
  case (Cons e evs)
  obtain now ev where e: "e = (now, ev)" by (cases e)
  have "comboConsistent (scoreData (applyEvent g e))"
  proof (cases ev)
    case (Dispatched a)
    with Cons.prems e show ?thesis by (simp add: dispatch_comboConsistent)
  next
    case (Frame dt)
    with Cons.prems e show ?thesis by (simp add: runFrame_comboConsistent)
  qed
  with Cons show ?case by simp
qed

lemma initial_comboConsistent: "comboConsistent (scoreData createInitialGameData)"
  by (simp add: comboConsistent_def createInitialGameData_def createInitialScoreData_def
      calculateComboMultiplier_def Let_def)

lemma bounce_adds_count_and_score:
  "bounceCount (scoreData (dispatch now (BALL_BOUNCE surface hp) g)) =
     bounceCount (scoreData g) + 1 \<and>
   score (scoreData (dispatch now (BALL_BOUNCE surface hp) g)) =
     score (scoreData g)
       + calculateBounceScore surface (orElse hp 0) (multiplier (scoreData g))"
  by (simp add: updateScoreData_def Let_def)

lemma completion_check_fires:
  "gameState g = PLAYING \<Longrightarrow> LOSE_LIFE \<notin> set (snd (gameLoopUpdate now dt g)) \<Longrightarrow>
   targetBounces (currentLevel g) \<le> bounceCount (scoreData g) \<Longrightarrow>
   NEXT_LEVEL \<in> set (snd (gameLoopUpdate now dt g))"
  by (simp add: gameLoopUpdate_def Let_def split: if_splits)

section \<open>Shield and life loss at the floor\<close>

text \<open>
  C1. The specification lets an active shield with 5 remaining bounces absorb a floor hit:
  no life is lost and 4 bounces remain. The code does not: the reducer has no case for
  \<^verbatim>\<open>UPDATE_SHIELD_BOUNCES\<close>, so the action that grants the five bounces leaves every
  state as it is, and the frame update never reads \<^verbatim>\<open>shieldBounces\<close>. In the state
  with three lives and five shield bounces whose ball crosses the floor, one frame of
  the game loop takes a life, returns to \<^verbatim>\<open>AIMING\<close> and keeps the five bounces.
\<close>

theorem shield_floor_hit_loses_life:
  "dispatch now (UPDATE_SHIELD_BOUNCES 5) g = g \<and>
   lives (scoreData (snd (gameLoop (101667 / 100) 1000
     (1000, floorCrossingState 3 0 0 (Some 5))))) = 2 \<and>
   gameState (snd (gameLoop (101667 / 100) 1000
     (1000, floorCrossingState 3 0 0 (Some 5)))) = AIMING \<and>
   shieldBounces (snd (gameLoop (101667 / 100) 1000
     (1000, floorCrossingState 3 0 0 (Some 5)))) = Some 5"
  by (simp add: floorCrossing_gameLoop floorCrossing_fields loseLife_def)

text \<open>
  C2. With one life left, a frame in which the ball crosses the floor dispatches
  \<^verbatim>\<open>LOSE_LIFE\<close>; the specification then wants 0 lives, \<^verbatim>\<open>GAME_OVER\<close> and the high
  score raised to the score. The \<^verbatim>\<open>LOSE_LIFE\<close> case reaches 0 lives and
  \<^verbatim>\<open>GAME_OVER\<close> but never calls \<^verbatim>\<open>updateHighScore\<close>: with score 50 and high score 0
  the high score stays 0, while the \<^verbatim>\<open>GAME_OVER\<close> action on the same state raises it
  to 50.
\<close>

theorem last_life_floor_hit_keeps_highScore:
  "lives (scoreData (snd (gameLoop (101667 / 100) 1000
     (1000, floorCrossingState 1 50 0 None)))) = 0 \<and>
   gameState (snd (gameLoop (101667 / 100) 1000
     (1000, floorCrossingState 1 50 0 None))) = GAME_OVER \<and>
   highScore (scoreData (snd (gameLoop (101667 / 100) 1000
     (1000, floorCrossingState 1 50 0 None)))) = 0 \<and>
   max (highScore (scoreData (floorCrossingState 1 50 0 None)))
       (score (scoreData (floorCrossingState 1 50 0 None))) = 50 \<and>
   highScore (scoreData (dispatch 1000 GAME_OVER_action (floorCrossingState 1 50 0 None))) = 50"
  by (simp add: floorCrossing_gameLoop floorCrossing_fields loseLife_def updateHighScore_def
      createInitialScoreData_def)

section \<open>Combo streak and multiplier\<close>

text \<open>
  C3, as the code has it. A bounce off a wall or the ceiling sets \<^verbatim>\<open>consecutiveBounces\<close>
  to 0 and a bounce off the platform adds exactly 1 to it, in every state; losing a life
  leaves it unchanged.
\<close>

theorem consecutiveBounces_transitions:
  "consecutiveBounces (scoreData (dispatch now (BALL_BOUNCE wall_surface hp) g)) = 0 \<and>
   consecutiveBounces (scoreData (dispatch now (BALL_BOUNCE ceiling_surface hp) g)) = 0 \<and>
   consecutiveBounces (scoreData (dispatch now (BALL_BOUNCE platform_surface hp) g)) =
     consecutiveBounces (scoreData g) + 1 \<and>
   consecutiveBounces (scoreData (dispatch now LOSE_LIFE g)) =
     consecutiveBounces (scoreData g)"
  by (simp add: updateScoreData_def loseLife_def Let_def)

text \<open>
  C3 as the specification states it fails: after a game is started, the ball launched
  and one platform bounce scored, the streak is 1, and it is still 1, not 0, after the
  loss of a life.
\<close>

theorem lose_life_keeps_consecutiveBounces:
  "consecutiveBounces (scoreData (dispatch 2 LOSE_LIFE
     (foldl applyEvent createInitialGameData
        [(0, Dispatched START_GAME), (0, Dispatched (LAUNCH_BALL 90 100)),
         (1, Dispatched (BALL_BOUNCE platform_surface (Some 0)))]))) \<noteq> 0"
  by (simp add: updateScoreData_def loseLife_def createInitialScoreData_def Let_def)

text \<open>
  C4, as the code has it. From a streak of 0 the surfaces platform, platform, platform,
  wall, platform leave the multipliers 1, 1.5, 1.5, 1, 1: the first platform bounce makes
  the streak 1, which still has multiplier 1, and the third makes it 3, which has 1.5.
\<close>

theorem multiplierTrace_scenario:
  "consecutiveBounces s = 0 \<Longrightarrow>
   multiplierTrace s
     [platform_surface, platform_surface, platform_surface, wall_surface, platform_surface]
   = [1, 15 / 10, 15 / 10, 1, 1]"
  by (simp add: updateScoreData_def calculateComboMultiplier_def Let_def)

theorem multiplierTrace_scenario_witness:
  "consecutiveBounces createInitialScoreData = 0 \<and>
   multiplier createInitialScoreData = 1 \<and>
   multiplierTrace createInitialScoreData
     [platform_surface, platform_surface, platform_surface, wall_surface, platform_surface]
   = [1, 15 / 10, 15 / 10, 1, 1]"
proof -
  have start: "consecutiveBounces createInitialScoreData = 0"
    by (simp add: createInitialScoreData_def)
  from multiplierTrace_scenario [OF start] start show ?thesis
    by (simp add: createInitialScoreData_def)
qed

text \<open>
  C4 as the specification states it fails: the multipliers are not 1.5, 1.5, 2, 1, 1.
\<close>

theorem multiplierTrace_not_as_specified:
  "multiplierTrace createInitialScoreData
     [platform_surface, platform_surface, platform_surface, wall_surface, platform_surface]
   \<noteq> [15 / 10, 15 / 10, 2, 1, 1]"
  by (simp add: createInitialScoreData_def updateScoreData_def calculateComboMultiplier_def
      Let_def)

text \<open>
  C5, as the code has it. After every history from the initial state in which no
  \<^verbatim>\<open>UPDATE_SCORE\<close> payload carries \<^verbatim>\<open>multiplier\<close> or \<^verbatim>\<open>consecutiveBounces\<close>, the stored
  multiplier is \<^verbatim>\<open>calculateComboMultiplier\<close> of the stored streak. The history may hold
  any other action and any frame of the game loop.
\<close>

theorem multiplier_recomputed_invariant:
  "list_all allowedEvent evs \<Longrightarrow>
   multiplier (scoreData (foldl applyEvent createInitialGameData evs)) =
   calculateComboMultiplier
     (consecutiveBounces (scoreData (foldl applyEvent createInitialGameData evs)))"
  using foldl_applyEvent_comboConsistent [OF initial_comboConsistent]
  by (simp add: comboConsistent_def)

theorem multiplier_recomputed_invariant_witness:
  "list_all allowedEvent
     [(0, Dispatched START_GAME), (0, Dispatched (LAUNCH_BALL 90 100)),
      (1, Dispatched (BALL_BOUNCE platform_surface (Some 0))),
      (2, Dispatched (BALL_BOUNCE platform_surface None))] \<and>
   multiplier (scoreData (foldl applyEvent createInitialGameData
     [(0, Dispatched START_GAME), (0, Dispatched (LAUNCH_BALL 90 100)),
      (1, Dispatched (BALL_BOUNCE platform_surface (Some 0))),
      (2, Dispatched (BALL_BOUNCE platform_surface None))])) =
   calculateComboMultiplier (consecutiveBounces (scoreData (foldl applyEvent
     createInitialGameData
     [(0, Dispatched START_GAME), (0, Dispatched (LAUNCH_BALL 90 100)),
      (1, Dispatched (BALL_BOUNCE platform_surface (Some 0))),
      (2, Dispatched (BALL_BOUNCE platform_surface None))])))"
proof -
  have allowed: "list_all allowedEvent
     [(0, Dispatched START_GAME), (0, Dispatched (LAUNCH_BALL 90 100)),
      (1, Dispatched (BALL_BOUNCE platform_surface (Some 0))),
      (2, Dispatched (BALL_BOUNCE platform_surface None))]"
    by simp
  from multiplier_recomputed_invariant [OF allowed] allowed show ?thesis
    by blast
qed

text \<open>
  C5 as the specification states it fails: \<^verbatim>\<open>UPDATE_SCORE\<close> with a payload that carries
  the multiplier 3, dispatched in the initial state, stores 3 beside a streak of 0.
\<close>

theorem update_score_breaks_multiplier:
  "multiplier (scoreData (dispatch 0 (UPDATE_SCORE multiplierPayload) createInitialGameData))
   \<noteq> calculateComboMultiplier (consecutiveBounces
        (scoreData (dispatch 0 (UPDATE_SCORE multiplierPayload) createInitialGameData)))"
  by (simp add: multiplierPayload_def mergeScoreData_def orElse_def createInitialGameData_def
      createInitialScoreData_def calculateComboMultiplier_def Let_def)

section \<open>Physics\<close>

text \<open>
  C6. If the ball fits between the walls (twice its radius is at most the canvas width),
  then after \<^verbatim>\<open>checkWallCollision\<close> the ball's x lies between the radius and the canvas
  width less the radius, whatever x and the velocity were before.
\<close>

theorem checkWallCollision_x_in_bounds:
  "2 * radius ball \<le> canvasWidth cfg \<Longrightarrow>
   radius ball \<le> pos_x (position (snd (checkWallCollision ball cfg))) \<and>
   pos_x (position (snd (checkWallCollision ball cfg))) \<le> canvasWidth cfg - radius ball"
  by (auto simp add: checkWallCollision_def Let_def)

theorem checkWallCollision_x_in_bounds_witness:
  "2 * radius (fastBall\<lparr>position := \<lparr>pos_x = - 5, pos_y = 100\<rparr>\<rparr>)
     \<le> canvasWidth createDefaultGameConfig \<and>
   pos_x (position (snd (checkWallCollision
     (fastBall\<lparr>position := \<lparr>pos_x = - 5, pos_y = 100\<rparr>\<rparr>) createDefaultGameConfig))) = 20 \<and>
   20 \<le> canvasWidth createDefaultGameConfig
           - radius (fastBall\<lparr>position := \<lparr>pos_x = - 5, pos_y = 100\<rparr>\<rparr>)"
proof -
  have fits: "2 * radius (fastBall\<lparr>position := \<lparr>pos_x = - 5, pos_y = 100\<rparr>\<rparr>)
     \<le> canvasWidth createDefaultGameConfig"
    by (simp add: fastBall_def createInitialBallPhysics_def createDefaultGameConfig_def)
  have moved: "pos_x (position (snd (checkWallCollision
     (fastBall\<lparr>position := \<lparr>pos_x = - 5, pos_y = 100\<rparr>\<rparr>) createDefaultGameConfig))) = 20"
    by (simp add: checkWallCollision_def fastBall_def createInitialBallPhysics_def
        createDefaultGameConfig_def)
  from checkWallCollision_x_in_bounds [OF fits] fits moved show ?thesis
    by simp
qed

text \<open>
  C7, as the code has it. A step of length 0 leaves the position as it is and clamps
  each velocity component to the velocity limit; so it returns the ball unchanged when
  both components already lie within the limit.
\<close>

theorem updateBallPhysics_zero_step:
  "position (updateBallPhysics ball 0) = position ball \<and>
   velocity (updateBallPhysics ball 0) =
     \<lparr>vel_vx = clamp (vel_vx (velocity ball)) (- maxVelocity ball) (maxVelocity ball),
      vel_vy = clamp (vel_vy (velocity ball)) (- maxVelocity ball) (maxVelocity ball)\<rparr> \<and>
   (\<bar>vel_vx (velocity ball)\<bar> \<le> maxVelocity ball \<and> \<bar>vel_vy (velocity ball)\<bar> \<le> maxVelocity ball
      \<longrightarrow> updateBallPhysics ball 0 = ball)"
proof (intro conjI impI)
  show "position (updateBallPhysics ball 0) = position ball"
    by (simp add: updateBallPhysics_def Let_def)
  show "velocity (updateBallPhysics ball 0) =
     \<lparr>vel_vx = clamp (vel_vx (velocity ball)) (- maxVelocity ball) (maxVelocity ball),
      vel_vy = clamp (vel_vy (velocity ball)) (- maxVelocity ball) (maxVelocity ball)\<rparr>"
    by (simp add: updateBallPhysics_def Let_def)
  assume "\<bar>vel_vx (velocity ball)\<bar> \<le> maxVelocity ball \<and>
      \<bar>vel_vy (velocity ball)\<bar> \<le> maxVelocity ball"
  then have "clamp (vel_vx (velocity ball)) (- maxVelocity ball) (maxVelocity ball)
        = vel_vx (velocity ball)"
    and "clamp (vel_vy (velocity ball)) (- maxVelocity ball) (maxVelocity ball)
        = vel_vy (velocity ball)"
    by (auto simp add: clamp_def)
  then show "updateBallPhysics ball 0 = ball"
    by (simp add: updateBallPhysics_def Let_def)
qed

theorem updateBallPhysics_zero_step_witness:
  "\<bar>vel_vx (velocity slowBall)\<bar> \<le> maxVelocity slowBall \<and>
   \<bar>vel_vy (velocity slowBall)\<bar> \<le> maxVelocity slowBall \<and>
   updateBallPhysics slowBall 0 = slowBall"
proof -
  have within: "\<bar>vel_vx (velocity slowBall)\<bar> \<le> maxVelocity slowBall \<and>
      \<bar>vel_vy (velocity slowBall)\<bar> \<le> maxVelocity slowBall"
    by (simp add: slowBall_def createInitialBallPhysics_def createDefaultGameConfig_def)
  with updateBallPhysics_zero_step [of slowBall] show ?thesis
    by blast
qed

text \<open>
  C7 as the specification states it fails: a ball of level 1 with horizontal velocity 30,
  above the limit of 20, leaves a step of length 0 with horizontal velocity 20.
\<close>

theorem updateBallPhysics_zero_step_clamps:
  "velocity (updateBallPhysics fastBall 0) \<noteq> velocity fastBall"
  by (simp add: updateBallPhysics_def clamp_def fastBall_def createInitialBallPhysics_def
      createDefaultGameConfig_def Let_def)

section \<open>Scoring\<close>

text \<open>
  C8. For every surface, hit position and multiplier the bounce score is the floor of
  (10 + bonus) times the multiplier, where the bonus is \<open>max 0 (1 - |hitPosition|) * 5\<close>
  on the platform and 0 on wall, ceiling and floor.
\<close>

theorem calculateBounceScore_formula:
  "calculateBounceScore surface hitPosition mult =
     real_of_int \<lfloor>(10 + (if surface = platform_surface
                          then max 0 (1 - \<bar>hitPosition\<bar>) * 5 else 0)) * mult\<rfloor>"
  by (simp add: calculateBounceScore_def Let_def)

text \<open>
  C10. A \<^verbatim>\<open>BALL_BOUNCE\<close> of any surface adds exactly 1 to \<^verbatim>\<open>bounceCount\<close> and the bounce
  score to the score. A frame in \<^verbatim>\<open>PLAYING\<close> within the time limit dispatches
  \<^verbatim>\<open>BALL_BOUNCE\<close> for the wall exactly when its wall check hits, and for the ceiling
  exactly when its ceiling check hits; unless it dispatches \<^verbatim>\<open>NEXT_LEVEL\<close>, the frame
  leaves \<^verbatim>\<open>bounceCount\<close> raised by one for each of the platform, wall and ceiling checks
  that hit. The completion check compares that count alone with \<^verbatim>\<open>targetBounces\<close>: a
  frame in \<^verbatim>\<open>PLAYING\<close> that does not lose a life dispatches \<^verbatim>\<open>NEXT_LEVEL\<close> once the
  count has reached the target. So bounces off walls and the ceiling count toward the
  target like platform bounces.
\<close>

theorem every_bounce_counts:
  "bounceCount (scoreData (dispatch now (BALL_BOUNCE surface hp) g)) =
     bounceCount (scoreData g) + 1 \<and>
   score (scoreData (dispatch now (BALL_BOUNCE surface hp) g)) =
     score (scoreData g)
       + calculateBounceScore surface (orElse hp 0) (multiplier (scoreData g)) \<and>
   (gameState g = PLAYING \<and> (now - levelStartTime g) / 1000 < timeLimit (currentLevel g) \<longrightarrow>
      (BALL_BOUNCE wall_surface None \<in> set (snd (gameLoopUpdate now dt g)) \<longleftrightarrow>
         fst (fst (checkWallCollision (updateBallPhysics (ballPhysics g) dt) (config g)))) \<and>
      (BALL_BOUNCE ceiling_surface None \<in> set (snd (gameLoopUpdate now dt g)) \<longleftrightarrow>
         fst (fst (checkCeilingCollision (snd (checkPlatformCollision
           (updateBallPhysics (ballPhysics g) dt) (platform g)))))) \<and>
      (NEXT_LEVEL \<notin> set (snd (gameLoopUpdate now dt g)) \<longrightarrow>
         bounceCount (scoreData (runFrame now dt g)) =
           bounceCount (scoreData g)
           + (if fst (fst (checkPlatformCollision
                (updateBallPhysics (ballPhysics g) dt) (platform g))) then 1 else 0)
           + (if fst (fst (checkWallCollision
                (updateBallPhysics (ballPhysics g) dt) (config g))) then 1 else 0)
           + (if fst (fst (checkCeilingCollision (snd (checkPlatformCollision
                (updateBallPhysics (ballPhysics g) dt) (platform g))))) then 1 else 0))) \<and>
   (gameState g = PLAYING \<and> LOSE_LIFE \<notin> set (snd (gameLoopUpdate now dt g)) \<and>
    targetBounces (currentLevel g) \<le> bounceCount (scoreData g)
      \<longrightarrow> NEXT_LEVEL \<in> set (snd (gameLoopUpdate now dt g)))"
proof (intro conjI impI)
  show "bounceCount (scoreData (dispatch now (BALL_BOUNCE surface hp) g)) =
      bounceCount (scoreData g) + 1"
    using bounce_adds_count_and_score [of now surface hp g] by blast
  show "score (scoreData (dispatch now (BALL_BOUNCE surface hp) g)) =
      score (scoreData g)
        + calculateBounceScore surface (orElse hp 0) (multiplier (scoreData g))"
    using bounce_adds_count_and_score [of now surface hp g] by blast
next
  assume "gameState g = PLAYING \<and> (now - levelStartTime g) / 1000 < timeLimit (currentLevel g)"
  then show "BALL_BOUNCE wall_surface None \<in> set (snd (gameLoopUpdate now dt g)) \<longleftrightarrow>
      fst (fst (checkWallCollision (updateBallPhysics (ballPhysics g) dt) (config g)))"
    using frame_wall_bounce [of g now dt] by blast
next
  assume "gameState g = PLAYING \<and> (now - levelStartTime g) / 1000 < timeLimit (currentLevel g)"
  then show "BALL_BOUNCE ceiling_surface None \<in> set (snd (gameLoopUpdate now dt g)) \<longleftrightarrow>
      fst (fst (checkCeilingCollision (snd (checkPlatformCollision
        (updateBallPhysics (ballPhysics g) dt) (platform g)))))"
    using frame_ceiling_bounce [of g now dt] by blast
next
  assume "gameState g = PLAYING \<and> (now - levelStartTime g) / 1000 < timeLimit (currentLevel g)"
    and "NEXT_LEVEL \<notin> set (snd (gameLoopUpdate now dt g))"
  then show "bounceCount (scoreData (runFrame now dt g)) =
      bounceCount (scoreData g)
      + (if fst (fst (checkPlatformCollision
           (updateBallPhysics (ballPhysics g) dt) (platform g))) then 1 else 0)
      + (if fst (fst (checkWallCollision
           (updateBallPhysics (ballPhysics g) dt) (config g))) then 1 else 0)
      + (if fst (fst (checkCeilingCollision (snd (checkPlatformCollision
           (updateBallPhysics (ballPhysics g) dt) (platform g))))) then 1 else 0)"
    using frame_bounceCount [of g now dt] by blast
next
  assume "gameState g = PLAYING \<and> LOSE_LIFE \<notin> set (snd (gameLoopUpdate now dt g)) \<and>
    targetBounces (currentLevel g) \<le> bounceCount (scoreData g)"
  then show "NEXT_LEVEL \<in> set (snd (gameLoopUpdate now dt g))"
    using completion_check_fires [of g now dt] by blast
qed

theorem every_bounce_counts_witness:
  "gameState wallApproachState = PLAYING \<and>
   (1000 - levelStartTime wallApproachState) / 1000 < timeLimit (currentLevel wallApproachState) \<and>
   fst (fst (checkWallCollision (updateBallPhysics (ballPhysics wallApproachState) 1)
     (config wallApproachState))) \<and>
   NEXT_LEVEL \<notin> set (snd (gameLoopUpdate 1000 1 wallApproachState)) \<and>
   BALL_BOUNCE wall_surface None \<in> set (snd (gameLoopUpdate 1000 1 wallApproachState)) \<and>
   bounceCount (scoreData wallApproachState) = 9 \<and>
   bounceCount (scoreData (runFrame 1000 1 wallApproachState)) = 10 \<and>
   gameState (runFrame 1000 1 wallApproachState) = PLAYING \<and>
   LOSE_LIFE \<notin> set (snd (gameLoopUpdate 1017 1 (runFrame 1000 1 wallApproachState))) \<and>
   targetBounces (currentLevel (runFrame 1000 1 wallApproachState))
     \<le> bounceCount (scoreData (runFrame 1000 1 wallApproachState)) \<and>
   NEXT_LEVEL \<in> set (snd (gameLoopUpdate 1017 1 (runFrame 1000 1 wallApproachState)))"
proof -
  have first: "gameState wallApproachState = PLAYING \<and>
      (1000 - levelStartTime wallApproachState) / 1000
        < timeLimit (currentLevel wallApproachState)"
    by (simp add: wallApproach_fields)
  have hit: "fst (fst (checkWallCollision (updateBallPhysics (ballPhysics wallApproachState) 1)
      (config wallApproachState)))"
    by (simp add: wallApproach_fields wallApproach_integrate overshotBall_wall)
  have stays: "NEXT_LEVEL \<notin> set (snd (gameLoopUpdate 1000 1 wallApproachState))"
    by (simp add: wallApproach_update)
  have others:
    "\<not> fst (fst (checkPlatformCollision (updateBallPhysics (ballPhysics wallApproachState) 1)
        (platform wallApproachState)))"
    "\<not> fst (fst (checkCeilingCollision (snd (checkPlatformCollision
        (updateBallPhysics (ballPhysics wallApproachState) 1) (platform wallApproachState)))))"
    by (simp_all add: wallApproach_integrate wallApproach_platform overshotBall_ceiling)
  have start: "bounceCount (scoreData wallApproachState) = 9"
    by (simp add: wallApproach_fields)
  from every_bounce_counts [of 1000 wall_surface None wallApproachState 1] first hit stays
  have dispatched: "BALL_BOUNCE wall_surface None \<in> set (snd (gameLoopUpdate 1000 1 wallApproachState))"
    and counted: "bounceCount (scoreData (runFrame 1000 1 wallApproachState)) =
      bounceCount (scoreData wallApproachState)
      + (if fst (fst (checkPlatformCollision
           (updateBallPhysics (ballPhysics wallApproachState) 1) (platform wallApproachState)))
         then 1 else 0)
      + (if fst (fst (checkWallCollision
           (updateBallPhysics (ballPhysics wallApproachState) 1) (config wallApproachState)))
         then 1 else 0)
      + (if fst (fst (checkCeilingCollision (snd (checkPlatformCollision
           (updateBallPhysics (ballPhysics wallApproachState) 1) (platform wallApproachState)))))
         then 1 else 0)"
    by blast+
  from counted hit others start
  have ten: "bounceCount (scoreData (runFrame 1000 1 wallApproachState)) = 10"
    by simp
  have second: "gameState (runFrame 1000 1 wallApproachState) = PLAYING \<and>
      LOSE_LIFE \<notin> set (snd (gameLoopUpdate 1017 1 (runFrame 1000 1 wallApproachState))) \<and>
      targetBounces (currentLevel (runFrame 1000 1 wallApproachState))
        \<le> bounceCount (scoreData (runFrame 1000 1 wallApproachState))"
    by (simp add: wallApproach_after_fields wallApproach_second_actions ten)
  with every_bounce_counts
    [of 1017 wall_surface None "runFrame 1000 1 wallApproachState" 1]
  have "NEXT_LEVEL \<in> set (snd (gameLoopUpdate 1017 1 (runFrame 1000 1 wallApproachState)))"
    by blast
  with first hit stays dispatched start ten second show ?thesis
    by blast
qed

end
